theory Spec2Isabelle
  imports Complex_Main "HOL-Library.Sublist"
begin

section \<open>JavaScript values\<close>

text \<open>
  Strings are lists of code units; the development only looks at code units below 256.
  A finite number is represented by its exact value; the three non-finite numbers of
  the language are separate constructors.
\<close>

datatype js_number = Fin rat | PosInfinity | NegInfinity | NaN

text \<open>
  Numbers are IEEE 754 doubles. The result of an arithmetic operation is the exact result
  rounded to the nearest double, ties to the even significand: 53 significant bits,
  least exponent \<open>-1074\<close>, and infinity from \<open>2 ^ 1024\<close> on.
\<close>

definition pow2 :: "int \<Rightarrow> rat" where
  "pow2 e = (if 0 \<le> e then 2 ^ nat e else 1 / 2 ^ nat (- e))"

function bitlength :: "nat \<Rightarrow> nat" where
  "bitlength n = (if n = 0 then 0 else Suc (bitlength (n div 2)))"
  by pat_completeness auto
termination
  by (relation "measure id") auto

text \<open>The integer \<open>k\<close> with \<open>2 ^ k \<le> x < 2 ^ (k + 1)\<close>, for a positive \<open>x\<close>.\<close>

definition floor_log2 :: "rat \<Rightarrow> int" where
  "floor_log2 x =
     (let d = int (bitlength (nat (fst (quotient_of x)))) - int (bitlength (nat (snd (quotient_of x))))
      in if pow2 d \<le> x then d else d - 1)"

definition round_half_even :: "rat \<Rightarrow> int" where
  "round_half_even q =
     (let f = \<lfloor>q\<rfloor>; r = q - of_int f
      in if r < 1 / 2 then f else if 1 / 2 < r then f + 1 else if even f then f else f + 1)"

definition round_double :: "rat \<Rightarrow> js_number" where
  "round_double x =
     (if x = 0 then Fin 0
      else
        let a = \<bar>x\<bar>;
            e = max (floor_log2 a - 52) (- 1074);
            y = of_int (round_half_even (a / pow2 e)) * pow2 e
        in if pow2 1024 \<le> y then (if 0 < x then PosInfinity else NegInfinity)
           else Fin (if 0 < x then y else - y))"

text \<open>A numeric literal of the source denotes the double nearest to its decimal value.\<close>

abbreviation literal :: "rat \<Rightarrow> js_number" where
  "literal x \<equiv> round_double x"

text \<open>
  Multiplication and division by a positive finite constant \<open>c\<close> (the only ones the
  source performs), \<^verbatim>\<open>Math.floor\<close>, and the comparisons, which are all false on NaN.
\<close>

fun js_times :: "js_number \<Rightarrow> rat \<Rightarrow> js_number" where
  "js_times (Fin x) c = round_double (x * c)"
| "js_times n c = n"

fun js_divide :: "js_number \<Rightarrow> rat \<Rightarrow> js_number" where
  "js_divide (Fin x) c = round_double (x / c)"
| "js_divide n c = n"

fun Math_floor :: "js_number \<Rightarrow> js_number" where
  "Math_floor (Fin x) = Fin (of_int \<lfloor>x\<rfloor>)"
| "Math_floor n = n"

fun js_less :: "js_number \<Rightarrow> js_number \<Rightarrow> bool" where
  "js_less (Fin x) (Fin y) = (x < y)"
| "js_less (Fin x) PosInfinity = True"
| "js_less NegInfinity (Fin y) = True"
| "js_less NegInfinity PosInfinity = True"
| "js_less _ _ = False"

definition js_less_eq :: "js_number \<Rightarrow> js_number \<Rightarrow> bool" where
  "js_less_eq a b = (a \<noteq> NaN \<and> b \<noteq> NaN \<and> (a = b \<or> js_less a b))"

definition js_strict_eq :: "js_number \<Rightarrow> js_number \<Rightarrow> bool" where
  "js_strict_eq a b = (a \<noteq> NaN \<and> a = b)"

text \<open>
  The value thrown or passed as an error has type \<^verbatim>\<open>unknown\<close> in the source.
  \<open>JError m\<close> is an instance of \<^verbatim>\<open>Error\<close> whose \<^verbatim>\<open>message\<close> is \<open>m\<close>.
  \<open>JObject p\<close> is any other value whose \<^verbatim>\<open>typeof\<close> is \<^verbatim>\<open>'object'\<close>: \<open>p = Some s\<close>
  when \<^verbatim>\<open>'message' in error\<close> holds, \<open>s\<close> being the result of
  \<^verbatim>\<open>String(error.message)\<close>, and \<open>p = None\<close> when the object has no such property.
  \<open>JOther\<close> stands for the remaining kinds (function, symbol).
\<close>

datatype js_value =
    JUndefined
  | JNull
  | JBoolean bool
  | JNumber js_number
  | JString string
  | JError string
  | JObject "string option"
  | JOther

section \<open>Error transformation (lib/errors)\<close>

text \<open>\<^verbatim>\<open>String.prototype.includes\<close>: the pattern occurs at some position of the string.\<close>

fun str_includes :: "string \<Rightarrow> string \<Rightarrow> bool" where
  "str_includes [] p = (p = [])"
| "str_includes (c # cs) p = (prefix p (c # cs) \<or> str_includes cs p)"

text \<open>
  The regular expressions of the rule table are alternations of literals, and
  \<^verbatim>\<open>RegExp.prototype.test\<close> searches for a match at any position.
\<close>

datatype regexp = RLit string | RAlt regexp regexp

fun regexp_test :: "regexp \<Rightarrow> string \<Rightarrow> bool" where
  "regexp_test (RLit l) s = str_includes s l"
| "regexp_test (RAlt a b) s = (regexp_test a s \<or> regexp_test b s)"

datatype pattern = PString string | PRegExp regexp

record mapping =
  pattern :: pattern
  message :: string

definition entry :: "pattern \<Rightarrow> string \<Rightarrow> mapping" where
  "entry p m = \<lparr>pattern = p, message = m\<rparr>"

definition ERROR_MAPPINGS :: "mapping list" where
  "ERROR_MAPPINGS =
   [entry (PString ''NotAllowedError'') ''Passkey operation was cancelled or not allowed.'',
    entry (PString ''InvalidStateError'') ''A passkey already exists for this device.'',
    entry (PString ''NotSupportedError'') ''Passkeys are not supported on this device or browser.'',
    entry (PString ''SecurityError'') ''Security error. Please ensure you are using HTTPS.'',
    entry (PString ''AbortError'') ''The operation was aborted. Please try again.'',
    entry (PString ''ConstraintError'') ''The passkey does not meet the required constraints.'',
    entry (PString ''load failed'') ''Failed to connect to Lazorkit services. Please try again.'',
    entry (PString ''Load failed'') ''Failed to connect to Lazorkit services. Please try again.'',
    entry (PString ''NetworkError'') ''Network error. Please check your connection.'',
    entry (PString ''Failed to fetch'') ''Network error. Please check your connection.'',
    entry (PRegExp (RAlt (RLit ''ECONNREFUSED'') (RAlt (RLit ''ETIMEDOUT'') (RLit ''ENOTFOUND''))))
      ''Unable to connect to the server. Please try again later.'',
    entry (PString ''timeout'') ''Request timed out. Please try again.'',
    entry (PString ''CORS'') ''Connection blocked. Please try again.'',
    entry (PString ''passkeyPublicKey must be exactly 33 bytes, got 0'')
      ''Passkey data not found. Please create a new wallet instead of logging in.'',
    entry (PString ''passkeyPublicKey must be exactly 33 bytes'')
      ''Invalid passkey data. Please try creating a new wallet.'',
    entry (PString ''paymaster'') ''Paymaster service unavailable. Please try again later.'',
    entry (PString ''smart wallet'') ''Smart wallet operation failed. Please try again.'',
    entry (PString ''Transaction simulation failed'')
      ''Transaction simulation failed. Please check your inputs.'',
    entry (PString ''Insufficient funds'') ''Insufficient funds for this transaction.'',
    entry (PString ''Blockhash not found'') ''Transaction expired. Please try again.'',
    entry (PString ''Account not found'') ''The specified account was not found.'',
    entry (PString ''Session expired'') ''Your session has expired. Please log in again.'',
    entry (PString ''Invalid session'') ''Invalid session. Please log in again.'',
    entry (PString ''Wallet not connected'') ''Please connect your wallet first.'',
    entry (PString ''User rejected'') ''The request was rejected.'']"

definition FALLBACK :: string where
  "FALLBACK = ''An unexpected error occurred.''"

text \<open>The test made on one rule in the body of the loop.\<close>

fun pattern_matches :: "pattern \<Rightarrow> string \<Rightarrow> bool" where
  "pattern_matches (PString p) errorMessage = str_includes errorMessage p"
| "pattern_matches (PRegExp r) errorMessage = regexp_test r errorMessage"

text \<open>
  The \<^verbatim>\<open>for ... of\<close> loop over the table: it returns from the function at the first
  rule that matches, and falls through (\<open>None\<close>) when the table is exhausted.
\<close>

fun scan_mappings :: "mapping list \<Rightarrow> string \<Rightarrow> string option" where
  "scan_mappings [] errorMessage = None"
| "scan_mappings (r # rs) errorMessage =
     (if pattern_matches (pattern r) errorMessage then Some (message r)
      else scan_mappings rs errorMessage)"

text \<open>
  The white space of \<^verbatim>\<open>String.prototype.trim\<close> among the code units below 256:
  TAB, LF, VT, FF, CR, SP and NBSP.
\<close>

definition is_space :: "char \<Rightarrow> bool" where
  "is_space c = (of_char c \<in> {9, 10, 11, 12, 13, 32, 160 :: nat})"

definition trim :: "string \<Rightarrow> string" where
  "trim s = rev (dropWhile is_space (rev (dropWhile is_space s)))"

text \<open>
  The first half of \<^verbatim>\<open>transformError\<close>: the message string taken from the input,
  or \<open>None\<close> on the paths that return the fallback at once.
\<close>

fun extract_message :: "js_value \<Rightarrow> string option" where
  "extract_message JNull = None"
| "extract_message JUndefined = None"
| "extract_message (JError m) = Some m"
| "extract_message (JString s) = Some s"
| "extract_message (JObject (Some s)) = Some s"
| "extract_message _ = None"

definition transformError :: "js_value \<Rightarrow> string" where
  "transformError error =
     (case extract_message error of
        None \<Rightarrow> FALLBACK
      | Some errorMessage \<Rightarrow>
          (case scan_mappings ERROR_MAPPINGS errorMessage of
             Some m \<Rightarrow> m
           | None \<Rightarrow> (if trim errorMessage = [] then FALLBACK else trim errorMessage)))"

section \<open>Address validation (lib/validation)\<close>

text \<open>
  The constructor \<^verbatim>\<open>PublicKey\<close> belongs to the address library; \<open>decodes a\<close> says
  that \<^verbatim>\<open>new PublicKey(a)\<close> returns instead of throwing.
\<close>

definition isValidSolanaAddress :: "(string \<Rightarrow> bool) \<Rightarrow> string \<Rightarrow> bool" where
  "isValidSolanaAddress decodes address = (if address = [] then False else decodes address)"

text \<open>
  For the concrete runs below: a library that accepts two addresses, that of the system
  program (32 bytes of zero in base 58) and that of the wrapped native token, and no
  other string.
\<close>

definition decodes_example :: "string \<Rightarrow> bool" where
  "decodes_example a =
     (a = ''11111111111111111111111111111111'' \<or>
      a = ''So11111111111111111111111111111111111111112'')"

section \<open>The transfer hook (hooks/useTransfer)\<close>

definition LAMPORTS_PER_SOL :: rat where
  "LAMPORTS_PER_SOL = 1000000000"

datatype TransactionStatus = Idle | Pending | Confirmed | Failed

record TransferState =
  isSubmitting :: bool
  signature :: "string option"
  error :: "string option"
  status :: TransactionStatus

definition initialState :: TransferState where
  "initialState = \<lparr>isSubmitting = False, signature = None, error = None, status = Idle\<rparr>"

record instruction =
  fromPubkey :: string
  toPubkey :: string
  lamports :: js_number

text \<open>
  What a call of \<^verbatim>\<open>transfer\<close> does to the outside, in order: it replaces the
  state of the hook (\<^verbatim>\<open>setState\<close> with a whole object) and it hands one
  instruction to \<^verbatim>\<open>signAndSendTransaction\<close> of the wallet store.
\<close>

datatype effect = SetState TransferState | SignAndSendTransaction instruction

text \<open>
  How the \<^verbatim>\<open>try\<close> block ends is decided by the collaborators: something throws
  before the transaction is handed over (building the instruction, the dynamic import),
  or the store is called and its promise rejects or resolves with a signature.
\<close>

datatype send_outcome =
    ThrowsBeforeSend js_value
  | SendRejects js_value
  | SendResolves string

definition toLamports :: "js_number \<Rightarrow> js_number" where
  "toLamports amount = Math_floor (js_times amount LAMPORTS_PER_SOL)"

text \<open>
  The part of \<^verbatim>\<open>transfer\<close> that runs before the first \<^verbatim>\<open>await\<close>: the three
  checks, each of which sets the state and throws, and then the pending state.
  The result is the effects so far, and either the error thrown or the wallet key with
  which the call goes on into the \<^verbatim>\<open>try\<close> block.
\<close>

datatype begin_result = Thrown js_value | Proceeds string

definition transfer_begin ::
  "(string \<Rightarrow> bool) \<Rightarrow> string option \<Rightarrow> string \<Rightarrow> js_number \<Rightarrow> effect list \<times> begin_result" where
  "transfer_begin decodes smartWalletPubkey recipient amount =
     (case smartWalletPubkey of
        None \<Rightarrow>
          ([SetState \<lparr>isSubmitting = False, signature = None,
                       error = Some (transformError (JString ''Wallet not connected'')),
                       status = Failed\<rparr>],
           Thrown (JError ''Wallet not connected''))
      | Some pubkey \<Rightarrow>
          if \<not> isValidSolanaAddress decodes recipient then
            ([SetState \<lparr>isSubmitting = False, signature = None,
                         error = Some (transformError (JString ''Invalid recipient address'')),
                         status = Failed\<rparr>],
             Thrown (JError ''Invalid recipient address''))
          else if js_less_eq amount (Fin 0) then
            ([SetState \<lparr>isSubmitting = False, signature = None,
                         error = Some ''Amount must be greater than 0'',
                         status = Failed\<rparr>],
             Thrown (JError ''Amount must be greater than 0''))
          else
            ([SetState \<lparr>isSubmitting = True, signature = None, error = None, status = Pending\<rparr>],
             Proceeds pubkey))"

text \<open>The rest of \<^verbatim>\<open>transfer\<close>: the \<^verbatim>\<open>try\<close> block and its \<^verbatim>\<open>catch\<close>.\<close>

definition failed_with :: "js_value \<Rightarrow> TransferState" where
  "failed_with err =
     \<lparr>isSubmitting = False, signature = None, error = Some (transformError err),
      status = Failed\<rparr>"

definition transfer_settle ::
  "string \<Rightarrow> string \<Rightarrow> js_number \<Rightarrow> send_outcome \<Rightarrow> effect list \<times> (js_value + string)" where
  "transfer_settle pubkey recipient amount outcome =
     (let instr = \<lparr>fromPubkey = pubkey, toPubkey = recipient, lamports = toLamports amount\<rparr>
      in case outcome of
           ThrowsBeforeSend err \<Rightarrow> ([SetState (failed_with err)], Inl err)
         | SendRejects err \<Rightarrow>
             ([SignAndSendTransaction instr, SetState (failed_with err)], Inl err)
         | SendResolves sig \<Rightarrow>
             ([SignAndSendTransaction instr,
               SetState \<lparr>isSubmitting = False, signature = Some sig, error = None,
                          status = Confirmed\<rparr>],
              Inr sig))"

text \<open>
  A whole call, run without anything else in between: the effects in order and the
  settlement of the promise (\<open>Inl\<close> the value it rejects with, \<open>Inr\<close> the signature).
\<close>

definition transfer ::
  "(string \<Rightarrow> bool) \<Rightarrow> string option \<Rightarrow> string \<Rightarrow> js_number \<Rightarrow> send_outcome
     \<Rightarrow> effect list \<times> (js_value + string)" where
  "transfer decodes smartWalletPubkey recipient amount outcome =
     (case transfer_begin decodes smartWalletPubkey recipient amount of
        (effs, Thrown err) \<Rightarrow> (effs, Inl err)
      | (effs, Proceeds pubkey) \<Rightarrow>
          (case transfer_settle pubkey recipient amount outcome of
             (effs', res) \<Rightarrow> (effs @ effs', res)))"

text \<open>The states the hook goes through, and the calls made on the store.\<close>

fun states_of :: "effect list \<Rightarrow> TransferState list" where
  "states_of [] = []"
| "states_of (SetState s # es) = s # states_of es"
| "states_of (SignAndSendTransaction i # es) = states_of es"

fun sent_of :: "effect list \<Rightarrow> instruction list" where
  "sent_of [] = []"
| "sent_of (SetState s # es) = sent_of es"
| "sent_of (SignAndSendTransaction i # es) = i # sent_of es"

definition final_state :: "TransferState \<Rightarrow> effect list \<Rightarrow> TransferState" where
  "final_state s effs = last (s # states_of effs)"

text \<open>
  The hook over time. Calls of \<^verbatim>\<open>transfer\<close> are asynchronous, so a second call or
  \<^verbatim>\<open>reset\<close> may run while an earlier call awaits the store; \<open>awaiting\<close> holds the
  calls that have passed the checks and not settled yet.
\<close>

record transfer_hook =
  state :: TransferState
  awaiting :: "(string \<times> string \<times> js_number) list"

datatype transfer_event =
    CallTransfer "string option" string js_number
  | Settle nat send_outcome
  | CallReset

definition transfer_step ::
  "(string \<Rightarrow> bool) \<Rightarrow> transfer_hook \<Rightarrow> transfer_event \<Rightarrow> transfer_hook option" where
  "transfer_step decodes h ev =
     (case ev of
        CallTransfer smartWalletPubkey recipient amount \<Rightarrow>
          (case transfer_begin decodes smartWalletPubkey recipient amount of
             (effs, Thrown err) \<Rightarrow> Some (h\<lparr>state := final_state (state h) effs\<rparr>)
           | (effs, Proceeds pubkey) \<Rightarrow>
               Some (h\<lparr>state := final_state (state h) effs,
                        awaiting := awaiting h @ [(pubkey, recipient, amount)]\<rparr>))
      | Settle k outcome \<Rightarrow>
          (if k < length (awaiting h) then
             (case awaiting h ! k of (pubkey, recipient, amount) \<Rightarrow>
                Some (h\<lparr>state := final_state (state h)
                                   (fst (transfer_settle pubkey recipient amount outcome)),
                         awaiting := take k (awaiting h) @ drop (Suc k) (awaiting h)\<rparr>))
           else None)
      | CallReset \<Rightarrow> Some (h\<lparr>state := initialState\<rparr>))"

fun transfer_run ::
  "(string \<Rightarrow> bool) \<Rightarrow> transfer_hook \<Rightarrow> transfer_event list \<Rightarrow> transfer_hook option" where
  "transfer_run decodes h [] = Some h"
| "transfer_run decodes h (ev # evs) =
     (case transfer_step decodes h ev of
        None \<Rightarrow> None
      | Some h' \<Rightarrow> transfer_run decodes h' evs)"

definition transfer_hook_init :: transfer_hook where
  "transfer_hook_init = \<lparr>state = initialState, awaiting = []\<rparr>"

text \<open>The invariant of the data model on one state.\<close>

definition exclusive :: "TransferState \<Rightarrow> bool" where
  "exclusive s =
     ((signature s = None \<or> error s = None) \<and>
      (case status s of
         Confirmed \<Rightarrow> signature s \<noteq> None \<and> error s = None
       | Failed \<Rightarrow> error s \<noteq> None \<and> signature s = None
       | Idle \<Rightarrow> signature s = None \<and> error s = None
       | Pending \<Rightarrow> signature s = None \<and> error s = None))"

section \<open>The wallet hook (hooks/useLazorkit)\<close>

text \<open>The fields of the store of the wallet library that the hook reads.\<close>

record WalletStoreState =
  wallet :: "string option"
  isLoading :: bool
  isConnecting :: bool
  store_error :: js_value

text \<open>The values that count as false in a condition.\<close>

fun truthy :: "js_value \<Rightarrow> bool" where
  "truthy JUndefined = False"
| "truthy JNull = False"
| "truthy (JBoolean b) = b"
| "truthy (JNumber n) = (n \<noteq> Fin 0 \<and> n \<noteq> NaN)"
| "truthy (JString s) = (s \<noteq> [])"
| "truthy _ = True"

record LazorkitHook =
  localError :: "string option"
  isOperating :: bool
  isRestoring :: bool
  hasAttemptedRestore :: bool
  walletAddress :: "string option"
  isConnected :: bool
  sdkIsLoading :: bool

definition lazorkit_init :: LazorkitHook where
  "lazorkit_init =
     \<lparr>localError = None, isOperating = False, isRestoring = False, hasAttemptedRestore = True,
      walletAddress = None, isConnected = False, sdkIsLoading = False\<rparr>"

text \<open>The loading flag the hook returns.\<close>

definition published_isLoading :: "LazorkitHook \<Rightarrow> bool" where
  "published_isLoading h = (sdkIsLoading h \<or> isOperating h \<or> isRestoring h)"

text \<open>The callback given to \<^verbatim>\<open>subscribe\<close>.\<close>

definition on_store_change :: "WalletStoreState \<Rightarrow> LazorkitHook \<Rightarrow> LazorkitHook" where
  "on_store_change newState h =
     (let h' = h\<lparr>walletAddress := wallet newState,
                 isConnected := (wallet newState \<noteq> None),
                 sdkIsLoading := (isLoading newState \<or> isConnecting newState)\<rparr>
      in if truthy (store_error newState)
         then h'\<lparr>localError := Some (transformError (store_error newState))\<rparr>
         else h')"

text \<open>The first reading of the store, in \<^verbatim>\<open>initStore\<close>; it leaves the error alone.\<close>

definition on_store_read :: "WalletStoreState \<Rightarrow> LazorkitHook \<Rightarrow> LazorkitHook" where
  "on_store_read s h =
     h\<lparr>walletAddress := wallet s, isConnected := (wallet s \<noteq> None),
       sdkIsLoading := (isLoading s \<or> isConnecting s)\<rparr>"

text \<open>
  How one call made inside a \<^verbatim>\<open>try\<close> block ends. The calls are awaited, so a
  synchronous throw and a rejected promise both enter \<^verbatim>\<open>catch\<close>.
\<close>

datatype call_outcome = Succeeds | ThrowsSync js_value | RejectsAsync js_value

record collaborators =
  removeItems :: call_outcome
  initializeLazorkitStore :: call_outcome
  importWallet :: call_outcome
  connect :: call_outcome
  disconnect :: call_outcome

datatype action = CreateWallet | Login | Logout

text \<open>The calls in the \<^verbatim>\<open>try\<close> block of each action, in order.\<close>

fun try_calls :: "collaborators \<Rightarrow> action \<Rightarrow> call_outcome list" where
  "try_calls c CreateWallet = [removeItems c, initializeLazorkitStore c, importWallet c, connect c]"
| "try_calls c Login = [initializeLazorkitStore c, importWallet c, connect c]"
| "try_calls c Logout = [importWallet c, disconnect c]"

text \<open>The block stops at the first call that fails; \<open>None\<close> when all succeed.\<close>

fun caught :: "call_outcome list \<Rightarrow> js_value option" where
  "caught [] = None"
| "caught (Succeeds # cs) = caught cs"
| "caught (ThrowsSync err # cs) = Some err"
| "caught (RejectsAsync err # cs) = Some err"

text \<open>The two statements before \<^verbatim>\<open>try\<close>, and the \<^verbatim>\<open>catch\<close> and \<^verbatim>\<open>finally\<close> blocks.\<close>

definition action_begin :: "LazorkitHook \<Rightarrow> LazorkitHook" where
  "action_begin h = h\<lparr>localError := None, isOperating := True\<rparr>"

definition action_end :: "js_value option \<Rightarrow> LazorkitHook \<Rightarrow> LazorkitHook" where
  "action_end failure h =
     (case failure of
        None \<Rightarrow> h
      | Some err \<Rightarrow> h\<lparr>localError := Some (transformError err)\<rparr>)\<lparr>isOperating := False\<rparr>"

text \<open>
  What may happen to the hook while an action awaits: the store is read for the first
  time or publishes a change, another action begins or ends, or \<^verbatim>\<open>clearError\<close>
  is called.
\<close>

datatype meanwhile =
    StoreRead WalletStoreState
  | StoreChanges WalletStoreState
  | OtherBegins
  | OtherEnds "js_value option"
  | ClearError

fun during :: "LazorkitHook \<Rightarrow> meanwhile \<Rightarrow> LazorkitHook" where
  "during h (StoreRead s) = on_store_read s h"
| "during h (StoreChanges s) = on_store_change s h"
| "during h OtherBegins = action_begin h"
| "during h (OtherEnds failure) = action_end failure h"
| "during h ClearError = h\<lparr>localError := None\<rparr>"

definition run_action ::
  "collaborators \<Rightarrow> action \<Rightarrow> meanwhile list \<Rightarrow> LazorkitHook \<Rightarrow> LazorkitHook" where
  "run_action c act ms h = action_end (caught (try_calls c act)) (foldl during (action_begin h) ms)"

text \<open>For the concrete run below: collaborators among which \<^verbatim>\<open>connect\<close> rejects.\<close>

definition collaborators_example :: collaborators where
  "collaborators_example =
     \<lparr>removeItems = Succeeds, initializeLazorkitStore = Succeeds, importWallet = Succeeds,
      connect = RejectsAsync (JError ''NotAllowedError: The operation was cancelled''),
      disconnect = ThrowsSync (JString ''Failed to fetch'')\<rparr>"

section \<open>The balance hook (hooks/useBalance)\<close>

record BalanceState =
  balance :: "js_number option"
  balanceLamports :: "js_number option"
  balance_isLoading :: bool
  balance_error :: "string option"

text \<open>
  The hook with what surrounds its state: the address it was last rendered with, whether
  \<^verbatim>\<open>connectionRef\<close> and \<^verbatim>\<open>intervalRef\<close> hold something, and the reads of the
  balance that have been dispatched and have not completed, each with the address in the
  closure that dispatched it.
\<close>

record balance_hook =
  bstate :: BalanceState
  address :: "string option"
  connection :: bool
  interval :: bool
  reads :: "string list"

datatype read_result = ReadResolves js_number | ReadRejects js_value

text \<open>The test \<^verbatim>\<open>!walletAddress\<close>: null and the empty string.\<close>

definition absent :: "string option \<Rightarrow> bool" where
  "absent a = (case a of None \<Rightarrow> True | Some w \<Rightarrow> w = [])"

text \<open>
  \<^verbatim>\<open>fetchBalance\<close> up to its \<^verbatim>\<open>await\<close>, for the address of its closure. The
  constructor of the key may throw, which ends the call in \<^verbatim>\<open>catch\<close> at once.
\<close>

definition fetchBalance_dispatch ::
  "(string \<Rightarrow> bool) \<Rightarrow> string option \<Rightarrow> balance_hook \<Rightarrow> balance_hook" where
  "fetchBalance_dispatch decodes a h =
     (case a of
        None \<Rightarrow> h\<lparr>bstate := (bstate h)\<lparr>balance := None, balanceLamports := None\<rparr>\<rparr>
      | Some w \<Rightarrow>
          if w = [] \<or> \<not> connection h then
            h\<lparr>bstate := (bstate h)\<lparr>balance := None, balanceLamports := None\<rparr>\<rparr>
          else
            let s = (bstate h)\<lparr>balance_isLoading := True, balance_error := None\<rparr>
            in if \<not> decodes w then
                 h\<lparr>bstate := s\<lparr>balance_error := Some ''Failed to fetch balance'', balance := None,
                                balanceLamports := None, balance_isLoading := False\<rparr>\<rparr>
               else h\<lparr>bstate := s, reads := reads h @ [w]\<rparr>)"

text \<open>
  \<^verbatim>\<open>fetchBalance\<close> after its \<^verbatim>\<open>await\<close>: the assignments, \<^verbatim>\<open>catch\<close> and
  \<^verbatim>\<open>finally\<close>. The hook takes \<open>LAMPORTS_PER_SOL\<close> from the address library, where
  it has the same value as the constant of this repository.
\<close>

definition fetchBalance_complete :: "read_result \<Rightarrow> BalanceState \<Rightarrow> BalanceState" where
  "fetchBalance_complete r s =
     (case r of
        ReadResolves l \<Rightarrow>
          s\<lparr>balanceLamports := Some l, balance := Some (js_divide l LAMPORTS_PER_SOL),
            balance_isLoading := False\<rparr>
      | ReadRejects err \<Rightarrow>
          s\<lparr>balance_error := Some ''Failed to fetch balance'', balance := None,
            balanceLamports := None, balance_isLoading := False\<rparr>)"

datatype balance_event =
    Render "string option"
  | Tick
  | Refresh
  | Complete nat read_result
  | Unmount

definition balance_mount :: "(string \<Rightarrow> bool) \<Rightarrow> string option \<Rightarrow> balance_hook" where
  "balance_mount decodes a =
     (fetchBalance_dispatch decodes a
        \<lparr>bstate = \<lparr>balance = None, balanceLamports = None, balance_isLoading = False,
                   balance_error = None\<rparr>,
         address = a, connection = True, interval = False, reads = []\<rparr>)
     \<lparr>interval := \<not> absent a\<rparr>"

definition balance_step ::
  "(string \<Rightarrow> bool) \<Rightarrow> balance_hook \<Rightarrow> balance_event \<Rightarrow> balance_hook option" where
  "balance_step decodes h ev =
     (case ev of
        Render a \<Rightarrow>
          (if a = address h then Some h
           else Some ((fetchBalance_dispatch decodes a (h\<lparr>address := a, interval := False\<rparr>))
                        \<lparr>interval := \<not> absent a\<rparr>))
      | Tick \<Rightarrow> (if interval h then Some (fetchBalance_dispatch decodes (address h) h) else None)
      | Refresh \<Rightarrow> Some (fetchBalance_dispatch decodes (address h) h)
      | Complete k r \<Rightarrow>
          (if k < length (reads h) then
             Some (h\<lparr>bstate := fetchBalance_complete r (bstate h),
                      reads := take k (reads h) @ drop (Suc k) (reads h)\<rparr>)
           else None)
      | Unmount \<Rightarrow> Some (h\<lparr>connection := False, interval := False\<rparr>))"

fun balance_run ::
  "(string \<Rightarrow> bool) \<Rightarrow> balance_hook \<Rightarrow> balance_event list \<Rightarrow> balance_hook option" where
  "balance_run decodes h [] = Some h"
| "balance_run decodes h (ev # evs) =
     (case balance_step decodes h ev of
        None \<Rightarrow> None
      | Some h' \<Rightarrow> balance_run decodes h' evs)"

section \<open>The balance display (components/WalletBalance)\<close>

text \<open>The decimal digits of a natural number, as \<^verbatim>\<open>toFixed\<close> writes them.\<close>

definition digit_char :: "nat \<Rightarrow> char" where
  "digit_char d = ''0123456789'' ! d"

function digits :: "nat \<Rightarrow> string" where
  "digits n = (if n < 10 then [digit_char n] else digits (n div 10) @ [digit_char (n mod 10)])"
  by pat_completeness auto
termination
  by (relation "measure id") auto

declare digits.simps [simp del]

text \<open>
  \<^verbatim>\<open>Number.prototype.toFixed\<close> with \<open>f\<close> fraction digits. For a finite value below
  \<open>10 ^ 21\<close> in magnitude it takes the integer \<open>n\<close> nearest to the value times
  \<open>10 ^ f\<close>, the larger one of two equally near, pads its digits to \<open>f + 1\<close> places
  and puts the point before the last \<open>f\<close>. From \<open>10 ^ 21\<close> on the language switches to
  the exponent notation of \<^verbatim>\<open>Number.prototype.toString\<close>; that notation is not part of
  this development, and the result is \<open>None\<close> there.
\<close>

definition toFixed :: "nat \<Rightarrow> js_number \<Rightarrow> string option" where
  "toFixed f x =
     (case x of
        NaN \<Rightarrow> Some ''NaN''
      | PosInfinity \<Rightarrow> Some ''Infinity''
      | NegInfinity \<Rightarrow> Some ''-Infinity''
      | Fin v \<Rightarrow>
          if 10 ^ 21 \<le> \<bar>v\<bar> then None
          else
            let n = nat \<lfloor>\<bar>v\<bar> * 10 ^ f + 1 / 2\<rfloor>;
                m = replicate (Suc f - length (digits n)) CHR ''0'' @ digits n;
                k = length m
            in Some ((if v < 0 then ''-'' else []) @
                     (if f = 0 then m else take (k - f) m @ ''.'' @ drop (k - f) m)))"

text \<open>
  \<^verbatim>\<open>replace(/\.?0+$/, '')\<close>: the first position from the left at which the rest of
  the string is an optional point followed by one or more zeros is where the string is
  cut; a string without such a position is returned as it is.
\<close>

definition zeros :: "string \<Rightarrow> bool" where
  "zeros s = (s \<noteq> [] \<and> list_all (\<lambda>c. c = CHR ''0'') s)"

fun tail_match :: "string \<Rightarrow> bool" where
  "tail_match [] = False"
| "tail_match (c # cs) = ((c = CHR ''.'' \<and> zeros cs) \<or> zeros (c # cs))"

fun replace_tail :: "string \<Rightarrow> string" where
  "replace_tail [] = []"
| "replace_tail (c # cs) = (if tail_match (c # cs) then [] else c # replace_tail cs)"

text \<open>\<^verbatim>\<open>formatBalance\<close> of the balance component.\<close>

definition formatBalance :: "js_number \<Rightarrow> string option" where
  "formatBalance b =
     (if js_strict_eq b (Fin 0) then Some ''0''
      else if js_less b (literal (1 / 10000)) then Some ''< 0.0001''
      else map_option replace_tail (toFixed 4 b))"

text \<open>
  For the statements about \<^verbatim>\<open>formatBalance\<close>: the decimal notation of \<open>n / 10 ^ 4\<close>
  without trailing zeros in the fraction and without a point when no fraction digit is
  left. \<open>rounded4\<close> writes a value rounded to the nearest multiple of \<open>1 / 10 ^ 4\<close>,
  a tie going up. \<open>truncated4\<close> follows the words of the specification: the value cut
  to four decimal places.
\<close>

definition decimal :: "string \<Rightarrow> string \<Rightarrow> string" where
  "decimal ip fp =
     (let fp' = rev (dropWhile (\<lambda>c. c = CHR ''0'') (rev fp))
      in if fp' = [] then ip else ip @ ''.'' @ fp')"

definition fixed4 :: "nat \<Rightarrow> string" where
  "fixed4 n =
     (let m = replicate (5 - length (digits n)) CHR ''0'' @ digits n
      in decimal (take (length m - 4) m) (drop (length m - 4) m))"

definition rounded4 :: "rat \<Rightarrow> string" where
  "rounded4 x = fixed4 (nat \<lfloor>x * 10000 + 1 / 2\<rfloor>)"

definition truncated4 :: "rat \<Rightarrow> string" where
  "truncated4 x = fixed4 (nat \<lfloor>x * 10000\<rfloor>)"

section \<open>Properties of the error transformation\<close>

lemma scan_mappings_first:
  "i < length rs \<Longrightarrow> pattern_matches (pattern (rs ! i)) m \<Longrightarrow>
   (\<forall>j<i. \<not> pattern_matches (pattern (rs ! j)) m) \<Longrightarrow>
   scan_mappings rs m = Some (message (rs ! i))"
proof (induction rs arbitrary: i)
  case Nil
  then show ?case by simp
next
  case (Cons r rs)
  show ?case
  proof (cases i)
    case 0
    with Cons.prems show ?thesis by simp
  next
    case (Suc k)
    from Cons.prems(3) Suc have "\<not> pattern_matches (pattern r) m" by auto
    moreover have "scan_mappings rs m = Some (message (rs ! k))"
    proof (rule Cons.IH)
      show "k < length rs" using Cons.prems(1) Suc by simp
      show "pattern_matches (pattern (rs ! k)) m" using Cons.prems(2) Suc by simp
      show "\<forall>j<k. \<not> pattern_matches (pattern (rs ! j)) m"
        using Cons.prems(3) Suc by auto
    qed
    ultimately show ?thesis using Suc by simp
  qed
qed

lemma scan_mappings_None:
  "scan_mappings rs m = None \<longleftrightarrow> (\<forall>r\<in>set rs. \<not> pattern_matches (pattern r) m)"
  by (induction rs) auto

text \<open>
  Claim C3. \<^verbatim>\<open>transformError\<close> goes through \<open>ERROR_MAPPINGS\<close> in order and returns
  the message of the first rule whose pattern matches the extracted message: when rule
  \<open>i\<close> matches and no rule before it does, the result is the message of rule \<open>i\<close>,
  whatever the later rules do.
\<close>

theorem transformError_first_match:
  assumes "extract_message err = Some msg"
    and "i < length ERROR_MAPPINGS"
    and "pattern_matches (pattern (ERROR_MAPPINGS ! i)) msg"
    and "\<forall>j<i. \<not> pattern_matches (pattern (ERROR_MAPPINGS ! j)) msg"
  shows "transformError err = message (ERROR_MAPPINGS ! i)"
  using assms scan_mappings_first [of i ERROR_MAPPINGS msg]
  by (simp add: transformError_def)

lemma ERROR_MAPPINGS_0:
  "ERROR_MAPPINGS ! 0 =
   entry (PString ''NotAllowedError'') ''Passkey operation was cancelled or not allowed.''"
  by (simp add: ERROR_MAPPINGS_def)

lemma ERROR_MAPPINGS_1:
  "ERROR_MAPPINGS ! 1 =
   entry (PString ''InvalidStateError'') ''A passkey already exists for this device.''"
  by (simp add: ERROR_MAPPINGS_def)

lemma ERROR_MAPPINGS_4:
  "ERROR_MAPPINGS ! 4 =
   entry (PString ''AbortError'') ''The operation was aborted. Please try again.''"
  by (simp add: ERROR_MAPPINGS_def)

text \<open>
  A message that holds the patterns of the second and of the fifth rule gets the message
  of the second.
\<close>

theorem transformError_first_match_witness:
  "pattern_matches (pattern (ERROR_MAPPINGS ! 1)) ''AbortError: InvalidStateError'' \<and>
   pattern_matches (pattern (ERROR_MAPPINGS ! 4)) ''AbortError: InvalidStateError'' \<and>
   transformError (JError ''AbortError: InvalidStateError'') =
     ''A passkey already exists for this device.''"
proof -
  have m0: "\<not> pattern_matches (PString ''NotAllowedError'') ''AbortError: InvalidStateError''"
    by simp
  have m1: "pattern_matches (PString ''InvalidStateError'') ''AbortError: InvalidStateError''"
    by simp
  have m4: "pattern_matches (PString ''AbortError'') ''AbortError: InvalidStateError''"
    by simp
  have "\<forall>j<(1::nat). \<not> pattern_matches (pattern (ERROR_MAPPINGS ! j)) ''AbortError: InvalidStateError''"
    using m0 by (simp add: ERROR_MAPPINGS_0 entry_def)
  then show ?thesis
    using transformError_first_match
        [of "JError ''AbortError: InvalidStateError''" "''AbortError: InvalidStateError''" 1]
      m1 m4
    by (simp add: ERROR_MAPPINGS_1 ERROR_MAPPINGS_4 entry_def ERROR_MAPPINGS_def)
qed

text \<open>
  Claim C7. On \<^verbatim>\<open>null\<close> and on \<^verbatim>\<open>undefined\<close> the result is the fallback string
  "An unexpected error occurred."; and when a message is extracted that no rule matches,
  the result is the trimmed message, or the fallback when trimming leaves nothing.
\<close>

theorem transformError_fallback:
  "FALLBACK = ''An unexpected error occurred.'' \<and>
   transformError JNull = FALLBACK \<and> transformError JUndefined = FALLBACK \<and>
   (\<forall>err msg. extract_message err = Some msg \<longrightarrow>
      (\<forall>r\<in>set ERROR_MAPPINGS. \<not> pattern_matches (pattern r) msg) \<longrightarrow>
      transformError err = (if trim msg = [] then FALLBACK else trim msg))"
proof (intro conjI allI impI)
  show "FALLBACK = ''An unexpected error occurred.''" by (simp add: FALLBACK_def)
  show "transformError JNull = FALLBACK" by (simp add: transformError_def)
  show "transformError JUndefined = FALLBACK" by (simp add: transformError_def)
next
  fix err msg
  assume e: "extract_message err = Some msg"
    and n: "\<forall>r\<in>set ERROR_MAPPINGS. \<not> pattern_matches (pattern r) msg"
  from n have "scan_mappings ERROR_MAPPINGS msg = None"
    by (simp only: scan_mappings_None)
  with e show "transformError err = (if trim msg = [] then FALLBACK else trim msg)"
    by (simp add: transformError_def)
qed

lemma no_match_custom:
  "\<forall>r\<in>set ERROR_MAPPINGS. \<not> pattern_matches (pattern r) ''  Custom failure ''"
  by (simp add: ERROR_MAPPINGS_def entry_def)

lemma trim_custom: "trim ''  Custom failure '' = ''Custom failure''"
  by (simp add: trim_def is_space_def)

lemma no_match_blank:
  "\<forall>r\<in>set ERROR_MAPPINGS. \<not> pattern_matches (pattern r) ''   ''"
  by (simp add: ERROR_MAPPINGS_def entry_def)

lemma trim_blank: "trim ''   '' = []"
  by (simp add: trim_def is_space_def)

theorem transformError_fallback_witness:
  "transformError (JError ''  Custom failure '') = ''Custom failure'' \<and>
   transformError (JString ''   '') = ''An unexpected error occurred.''"
  using transformError_fallback no_match_custom no_match_blank
  by (simp add: trim_custom trim_blank del: pattern_matches.simps)

text \<open>
  Claim C10. An input that is neither \<^verbatim>\<open>null\<close> nor \<^verbatim>\<open>undefined\<close>, and is not an
  \<^verbatim>\<open>Error\<close>, a string or an object with a \<^verbatim>\<open>message\<close> property, gets the fallback
  string: no message is extracted from it, so nothing is matched against the rules.
\<close>

theorem transformError_other_kinds:
  assumes "err \<noteq> JNull" and "err \<noteq> JUndefined"
    and "\<forall>m. err \<noteq> JError m" and "\<forall>s. err \<noteq> JString s" and "\<forall>s. err \<noteq> JObject (Some s)"
  shows "extract_message err = None \<and> transformError err = ''An unexpected error occurred.''"
proof -
  have "extract_message err = None"
    using assms by (cases err rule: extract_message.cases) simp_all
  then show ?thesis by (simp add: transformError_def FALLBACK_def)
qed

theorem transformError_other_kinds_witness:
  "transformError (JNumber (Fin 42)) = ''An unexpected error occurred.'' \<and>
   transformError (JBoolean True) = ''An unexpected error occurred.'' \<and>
   transformError (JObject None) = ''An unexpected error occurred.''"
  using transformError_other_kinds [of "JNumber (Fin 42)"]
    transformError_other_kinds [of "JBoolean True"]
    transformError_other_kinds [of "JObject None"]
  by simp

section \<open>Properties of the transfer hook\<close>

lemma transfer_begin_states:
  "\<exists>s. fst (transfer_begin decodes w r a) = [SetState s] \<and> exclusive s"
  by (simp add: transfer_begin_def exclusive_def split: option.splits)

lemma transfer_settle_states:
  "\<exists>s. states_of (fst (transfer_settle w r a out)) = [s] \<and> exclusive s"
  by (cases out) (simp_all add: transfer_settle_def failed_with_def exclusive_def Let_def)

lemma transfer_step_exclusive:
  assumes "transfer_step decodes h ev = Some h'"
  shows "exclusive (state h')"
proof (cases ev)
  case (CallTransfer w r a)
  obtain effs res where b: "transfer_begin decodes w r a = (effs, res)"
    by (cases "transfer_begin decodes w r a")
  obtain s where s: "effs = [SetState s]" "exclusive s"
    using transfer_begin_states [of decodes w r a] b by auto
  have "state h' = s"
    using assms CallTransfer b s(1)
    by (cases res) (auto simp: transfer_step_def final_state_def)
  with s(2) show ?thesis by simp
next
  case (Settle k out)
  with assms have k: "k < length (awaiting h)"
    by (simp add: transfer_step_def split: if_splits)
  obtain w r a where t: "awaiting h ! k = (w, r, a)"
    by (cases "awaiting h ! k")
  obtain s where s: "states_of (fst (transfer_settle w r a out)) = [s]" "exclusive s"
    using transfer_settle_states by blast
  have "state h' = s"
    using assms Settle k t s(1) by (auto simp: transfer_step_def final_state_def)
  with s(2) show ?thesis by simp
next
  case CallReset
  with assms have "state h' = initialState" by (auto simp: transfer_step_def)
  then show ?thesis by (simp add: exclusive_def initialState_def)
qed

lemma transfer_run_exclusive:
  "exclusive (state h) \<Longrightarrow> transfer_run decodes h evs = Some h' \<Longrightarrow> exclusive (state h')"
proof (induction evs arbitrary: h)
  case Nil
  then show ?case by simp
next
  case (Cons ev evs)
  from Cons.prems(2) obtain h1 where st: "transfer_step decodes h ev = Some h1"
    and rn: "transfer_run decodes h1 evs = Some h'"
    by (auto split: option.splits)
  from st have "exclusive (state h1)" by (rule transfer_step_exclusive)
  then show ?case using rn by (rule Cons.IH)
qed

text \<open>
  Claim C1. In every state the hook reaches from its initial state through calls of
  \<^verbatim>\<open>transfer\<close>, their settlements and \<^verbatim>\<open>reset\<close>, in any order, at most one of
  \<open>error\<close> and \<open>signature\<close> is set, and the status agrees with them: confirmed has
  a signature and no error, failed has an error and no signature, idle and pending have
  neither.
\<close>

theorem transfer_state_exclusive:
  assumes "transfer_run decodes transfer_hook_init evs = Some h"
  shows "(signature (state h) = None \<or> error (state h) = None) \<and>
         (status (state h) = Confirmed \<longrightarrow> signature (state h) \<noteq> None \<and> error (state h) = None) \<and>
         (status (state h) = Failed \<longrightarrow> error (state h) \<noteq> None \<and> signature (state h) = None) \<and>
         (status (state h) = Idle \<or> status (state h) = Pending \<longrightarrow>
            signature (state h) = None \<and> error (state h) = None)"
proof -
  have "exclusive (state transfer_hook_init)"
    by (simp add: transfer_hook_init_def exclusive_def initialState_def)
  then have "exclusive (state h)" using assms by (rule transfer_run_exclusive)
  then show ?thesis
    by (cases "status (state h)") (simp_all add: exclusive_def)
qed

lemma run_example:
  "transfer_run decodes_example transfer_hook_init
     [CallTransfer (Some ''W'') ''11111111111111111111111111111111'' (Fin 1),
      CallTransfer (Some ''W'') ''11111111111111111111111111111111'' (Fin (- 1)),
      Settle 0 (SendResolves ''sig123'')] =
   Some \<lparr>state = \<lparr>isSubmitting = False, signature = Some ''sig123'', error = None,
                   status = Confirmed\<rparr>,
         awaiting = []\<rparr>"
  by (simp add: transfer_step_def transfer_begin_def transfer_settle_def failed_with_def transfer_hook_init_def
      isValidSolanaAddress_def decodes_example_def js_less_eq_def final_state_def initialState_def)

theorem transfer_state_exclusive_witness:
  "transfer_run decodes_example transfer_hook_init
     [CallTransfer (Some ''W'') ''11111111111111111111111111111111'' (Fin 1),
      CallTransfer (Some ''W'') ''11111111111111111111111111111111'' (Fin (- 1)),
      Settle 0 (SendResolves ''sig123'')] =
   Some \<lparr>state = \<lparr>isSubmitting = False, signature = Some ''sig123'', error = None,
                   status = Confirmed\<rparr>,
         awaiting = []\<rparr> \<and>
   signature \<lparr>isSubmitting = False, signature = Some ''sig123'', error = None,
                   status = Confirmed\<rparr> \<noteq> None"
  using transfer_state_exclusive [OF run_example] run_example by simp

text \<open>
  Claim C5, amended. A call of \<^verbatim>\<open>transfer\<close> that fails one of the three checks (no
  wallet key, recipient not a valid address, amount not above zero) throws in the part
  that runs before any \<^verbatim>\<open>await\<close>: it replaces the state of the hook by one state,
  failed and with \<open>isSubmitting\<close> false, hands nothing to the store, leaves the calls
  that await as they are, and rejects, whatever the store would have answered. The call
  never sets \<open>isSubmitting\<close> to true: when the flag is false before the call, it is
  false in every state during and after it. With a wallet key, a valid recipient and the
  amount \<open>-1\<close> the message, in the state and in the error thrown, is
  "Amount must be greater than 0".
\<close>

theorem transfer_fail_fast:
  "(smartWalletPubkey = None \<or> \<not> isValidSolanaAddress decodes recipient \<or>
      js_less_eq amount (Fin 0) \<longrightarrow>
    (\<exists>s msg.
        transfer_begin decodes smartWalletPubkey recipient amount = ([SetState s], Thrown (JError msg)) \<and>
        transfer decodes smartWalletPubkey recipient amount outcome = ([SetState s], Inl (JError msg)) \<and>
        transfer_step decodes h (CallTransfer smartWalletPubkey recipient amount) =
          Some (h\<lparr>state := s\<rparr>) \<and>
        \<not> isSubmitting s \<and> status s = Failed \<and> error s \<noteq> None \<and>
        (\<not> isSubmitting (state h) \<longrightarrow>
           list_all (\<lambda>t. \<not> isSubmitting t)
             (state h # states_of (fst (transfer decodes smartWalletPubkey recipient amount outcome)))))) \<and>
   (isValidSolanaAddress decodes recipient \<longrightarrow>
    transfer decodes (Some pubkey) recipient (Fin (- 1)) outcome =
      ([SetState \<lparr>isSubmitting = False, signature = None,
                   error = Some ''Amount must be greater than 0'', status = Failed\<rparr>],
       Inl (JError ''Amount must be greater than 0'')))"
  by (cases smartWalletPubkey)
    (auto simp: transfer_def transfer_begin_def transfer_step_def final_state_def js_less_eq_def)

theorem transfer_fail_fast_witness:
  "js_less_eq (Fin (- 1)) (Fin 0) \<and>
   isValidSolanaAddress decodes_example ''11111111111111111111111111111111'' \<and>
   \<not> isSubmitting (state transfer_hook_init) \<and>
   transfer_step decodes_example transfer_hook_init
     (CallTransfer (Some ''W'') ''11111111111111111111111111111111'' (Fin (- 1))) =
     Some \<lparr>state = \<lparr>isSubmitting = False, signature = None,
                     error = Some ''Amount must be greater than 0'', status = Failed\<rparr>,
           awaiting = []\<rparr> \<and>
   sent_of (fst (transfer decodes_example (Some ''W'') ''11111111111111111111111111111111''
      (Fin (- 1)) (SendResolves ''sig123''))) = [] \<and>
   states_of (fst (transfer decodes_example (Some ''W'') ''11111111111111111111111111111111''
      (Fin (- 1)) (SendResolves ''sig123''))) =
     [\<lparr>isSubmitting = False, signature = None,
                   error = Some ''Amount must be greater than 0'', status = Failed\<rparr>]"
  using transfer_fail_fast [of "Some ''W''" decodes_example "''11111111111111111111111111111111''"
      "Fin (- 1)" "SendResolves ''sig123''" transfer_hook_init "''W''"]
  by (simp add: isValidSolanaAddress_def decodes_example_def js_less_eq_def
      transfer_hook_init_def initialState_def transfer_def transfer_begin_def
      transfer_step_def final_state_def)

text \<open>
  Claim C5 as stated fails when the call is made while an earlier transfer awaits the
  store: after the first call the flag is true, the second call fails the check of the
  amount and writes a state with the flag false, and the first call is still awaiting.
\<close>

theorem transfer_fail_fast_counterexample:
  "transfer_run decodes_example transfer_hook_init
     [CallTransfer (Some ''W'') ''11111111111111111111111111111111'' (Fin 1)] =
   Some \<lparr>state = \<lparr>isSubmitting = True, signature = None, error = None, status = Pending\<rparr>,
         awaiting = [(''W'', ''11111111111111111111111111111111'', Fin 1)]\<rparr> \<and>
   js_less_eq (Fin (- 1)) (Fin 0) \<and>
   transfer_run decodes_example transfer_hook_init
     [CallTransfer (Some ''W'') ''11111111111111111111111111111111'' (Fin 1),
      CallTransfer (Some ''W'') ''11111111111111111111111111111111'' (Fin (- 1))] =
   Some \<lparr>state = \<lparr>isSubmitting = False, signature = None,
                   error = Some ''Amount must be greater than 0'', status = Failed\<rparr>,
         awaiting = [(''W'', ''11111111111111111111111111111111'', Fin 1)]\<rparr>"
  by (simp add: transfer_step_def transfer_begin_def transfer_hook_init_def
      isValidSolanaAddress_def decodes_example_def js_less_eq_def final_state_def initialState_def)

lemma ERROR_MAPPINGS_19:
  "ERROR_MAPPINGS ! 19 =
   entry (PString ''Blockhash not found'') ''Transaction expired. Please try again.''"
  by (simp add: ERROR_MAPPINGS_def)

lemma all_take_nth:
  assumes "\<forall>r\<in>set (take n rs). P r" and "n \<le> length rs"
  shows "\<forall>j<n. P (rs ! j)"
proof (intro allI impI)
  fix j
  assume j: "j < n"
  then have "j < length (take n rs)" using assms(2) by simp
  then have "take n rs ! j \<in> set (take n rs)" by (rule nth_mem)
  moreover have "take n rs ! j = rs ! j" using j by simp
  ultimately show "P (rs ! j)" using assms(1) by auto
qed

lemma length_ERROR_MAPPINGS: "length ERROR_MAPPINGS = 25"
  by (simp add: ERROR_MAPPINGS_def)

text \<open>
  Claim C8, amended. With a wallet key, a valid recipient and an amount above zero, when
  \<^verbatim>\<open>signAndSendTransaction\<close> rejects with an error whose message contains
  "Blockhash not found" and matches none of the nineteen rules that stand before that
  one in \<open>ERROR_MAPPINGS\<close>, the state after the call is failed, without signature, with
  the error "Transaction expired. Please try again.".
\<close>

theorem transfer_blockhash:
  assumes "isValidSolanaAddress decodes recipient"
    and "\<not> js_less_eq amount (Fin 0)"
    and "extract_message err = Some msg"
    and "str_includes msg ''Blockhash not found''"
    and "\<forall>r\<in>set (take 19 ERROR_MAPPINGS). \<not> pattern_matches (pattern r) msg"
  shows "final_state s0 (fst (transfer decodes (Some pubkey) recipient amount (SendRejects err))) =
           \<lparr>isSubmitting = False, signature = None,
            error = Some ''Transaction expired. Please try again.'', status = Failed\<rparr>
         \<and> snd (transfer decodes (Some pubkey) recipient amount (SendRejects err)) = Inl err"
proof -
  have "\<forall>j<19. \<not> pattern_matches (pattern (ERROR_MAPPINGS ! j)) msg"
    using assms(5) by (rule all_take_nth) (simp add: length_ERROR_MAPPINGS)
  moreover have "pattern_matches (pattern (ERROR_MAPPINGS ! 19)) msg"
    using assms(4) by (simp add: ERROR_MAPPINGS_19 entry_def)
  ultimately have "scan_mappings ERROR_MAPPINGS msg = Some (message (ERROR_MAPPINGS ! 19))"
    by (intro scan_mappings_first) (simp_all add: length_ERROR_MAPPINGS)
  then have "transformError err = ''Transaction expired. Please try again.''"
    using assms(3) by (simp add: transformError_def ERROR_MAPPINGS_19 entry_def)
  then show ?thesis
    using assms(1,2)
    by (simp add: transfer_def transfer_begin_def transfer_settle_def failed_with_def final_state_def)
qed

lemma no_earlier_example:
  "\<forall>r\<in>set (take 19 ERROR_MAPPINGS). \<not> pattern_matches (pattern r) ''Blockhash not found''"
  by (simp add: ERROR_MAPPINGS_def entry_def)

theorem transfer_blockhash_witness:
  "final_state initialState
     (fst (transfer decodes_example (Some ''W'') ''11111111111111111111111111111111'' (Fin 1)
        (SendRejects (JError ''Blockhash not found'')))) =
   \<lparr>isSubmitting = False, signature = None,
    error = Some ''Transaction expired. Please try again.'', status = Failed\<rparr>"
  using transfer_blockhash [of decodes_example "''11111111111111111111111111111111''" "Fin 1"
      "JError ''Blockhash not found''" "''Blockhash not found''" initialState "''W''"]
    no_earlier_example
  by (simp add: isValidSolanaAddress_def decodes_example_def js_less_eq_def)

text \<open>
  Claim C8 as stated fails when the message also contains the pattern of an earlier rule:
  the message "Transaction simulation failed: Blockhash not found" contains
  "Blockhash not found", and the state ends with the error of the rule for
  "Transaction simulation failed".
\<close>

theorem transfer_blockhash_counterexample:
  "isValidSolanaAddress decodes_example ''11111111111111111111111111111111'' \<and>
   \<not> js_less_eq (Fin 1) (Fin 0) \<and>
   str_includes ''Transaction simulation failed: Blockhash not found'' ''Blockhash not found'' \<and>
   final_state initialState
     (fst (transfer decodes_example (Some ''W'') ''11111111111111111111111111111111'' (Fin 1)
        (SendRejects (JError ''Transaction simulation failed: Blockhash not found'')))) =
   \<lparr>isSubmitting = False, signature = None,
    error = Some ''Transaction simulation failed. Please check your inputs.'', status = Failed\<rparr> \<and>
   final_state initialState
     (fst (transfer decodes_example (Some ''W'') ''11111111111111111111111111111111'' (Fin 1)
        (SendRejects (JError ''Transaction simulation failed: Blockhash not found'')))) \<noteq>
   \<lparr>isSubmitting = False, signature = None,
    error = Some ''Transaction expired. Please try again.'', status = Failed\<rparr>"
proof -
  have "transformError (JError ''Transaction simulation failed: Blockhash not found'') =
      ''Transaction simulation failed. Please check your inputs.''"
    by (simp add: transformError_def ERROR_MAPPINGS_def entry_def)
  then show ?thesis
    by (simp add: transfer_def transfer_begin_def transfer_settle_def failed_with_def final_state_def
        isValidSolanaAddress_def decodes_example_def js_less_eq_def)
qed

section \<open>Properties of the wallet hook\<close>

lemma action_end_isOperating: "\<not> isOperating (action_end failure h)"
  by (cases failure) (simp_all add: action_end_def)

lemma action_end_localError:
  "localError (action_end (Some err) h) = Some (transformError err)"
  by (simp add: action_end_def)

lemma action_end_loading:
  "published_isLoading (action_end failure h) =
   (sdkIsLoading (action_end failure h) \<or> isRestoring (action_end failure h))"
  by (cases failure) (simp_all add: action_end_def published_isLoading_def)

text \<open>
  Claim C6. After \<^verbatim>\<open>createWallet\<close>, \<^verbatim>\<open>login\<close> or \<^verbatim>\<open>logout\<close> completes,
  \<open>isOperating\<close> is false, so that it adds nothing to the loading flag the hook
  returns: whether every call of the \<^verbatim>\<open>try\<close> block succeeds, or one throws or
  rejects, and whatever the store published and whichever other action began or ended
  in the meantime. When a call fails, the value caught goes through
  \<^verbatim>\<open>transformError\<close> into \<open>localError\<close>.
\<close>

theorem action_clears_isOperating:
  "\<not> isOperating (run_action c act ms h) \<and>
   published_isLoading (run_action c act ms h) =
     (sdkIsLoading (run_action c act ms h) \<or> isRestoring (run_action c act ms h)) \<and>
   (\<forall>err. caught (try_calls c act) = Some err \<longrightarrow>
      localError (run_action c act ms h) = Some (transformError err))"
  unfolding run_action_def
  using action_end_isOperating action_end_localError action_end_loading by simp

lemma caught_example:
  "caught (try_calls collaborators_example CreateWallet) =
     Some (JError ''NotAllowedError: The operation was cancelled'')"
  by (simp add: collaborators_example_def)

lemma transformError_example:
  "transformError (JError ''NotAllowedError: The operation was cancelled'') =
     ''Passkey operation was cancelled or not allowed.''"
  by (simp add: transformError_def ERROR_MAPPINGS_def entry_def)

theorem action_clears_isOperating_witness:
  "caught (try_calls collaborators_example CreateWallet) =
     Some (JError ''NotAllowedError: The operation was cancelled'') \<and>
   isOperating (foldl during (action_begin lazorkit_init)
       [StoreChanges \<lparr>wallet = None, isLoading = True, isConnecting = True, store_error = JNull\<rparr>]) \<and>
   \<not> isOperating (run_action collaborators_example CreateWallet
       [StoreChanges \<lparr>wallet = None, isLoading = True, isConnecting = True, store_error = JNull\<rparr>]
       lazorkit_init) \<and>
   localError (run_action collaborators_example CreateWallet
       [StoreChanges \<lparr>wallet = None, isLoading = True, isConnecting = True, store_error = JNull\<rparr>]
       lazorkit_init) = Some ''Passkey operation was cancelled or not allowed.''"
  using action_clears_isOperating [of collaborators_example CreateWallet
      "[StoreChanges \<lparr>wallet = None, isLoading = True, isConnecting = True, store_error = JNull\<rparr>]"
      lazorkit_init]
    caught_example
  by (simp add: transformError_example action_begin_def on_store_change_def lazorkit_init_def)

section \<open>Properties of the balance hook\<close>

text \<open>
  Claim C2, amended. A read of the balance that resolves is always assigned: for any
  state of the hook and any read still in flight, its completion sets
  \<open>balanceLamports\<close> to the result and \<open>balance\<close> to the result divided by
  \<open>LAMPORTS_PER_SOL\<close> and clears the loading flag, whichever address the read was
  dispatched for and whichever address the hook has by then. Nothing compares the two.
\<close>

theorem fetch_result_always_assigned:
  assumes "k < length (reads h)"
  shows "\<exists>h'. balance_step decodes h (Complete k (ReadResolves l)) = Some h' \<and>
           balanceLamports (bstate h') = Some l \<and>
           balance (bstate h') = Some (js_divide l LAMPORTS_PER_SOL) \<and>
           \<not> balance_isLoading (bstate h') \<and>
           address h' = address h"
  using assms by (simp add: balance_step_def fetchBalance_complete_def)

theorem fetch_result_always_assigned_witness:
  "balance_step decodes_example
     \<lparr>bstate = \<lparr>balance = Some (js_divide (Fin 200) LAMPORTS_PER_SOL),
                   balanceLamports = Some (Fin 200), balance_isLoading = False,
                   balance_error = None\<rparr>,
      address = Some ''So11111111111111111111111111111111111111112'', connection = True,
      interval = True, reads = [''11111111111111111111111111111111'']\<rparr>
     (Complete 0 (ReadResolves (Fin 100))) =
   Some \<lparr>bstate = \<lparr>balance = Some (js_divide (Fin 100) LAMPORTS_PER_SOL),
                   balanceLamports = Some (Fin 100), balance_isLoading = False,
                   balance_error = None\<rparr>,
      address = Some ''So11111111111111111111111111111111111111112'', connection = True,
      interval = True, reads = []\<rparr>"
  using fetch_result_always_assigned [of 0
     "\<lparr>bstate = \<lparr>balance = Some (js_divide (Fin 200) LAMPORTS_PER_SOL),
                   balanceLamports = Some (Fin 200), balance_isLoading = False,
                   balance_error = None\<rparr>,
      address = Some ''So11111111111111111111111111111111111111112'', connection = True,
      interval = True, reads = [''11111111111111111111111111111111'']\<rparr>" decodes_example "Fin 100"]
  by (simp add: balance_step_def fetchBalance_complete_def)

lemma mount_example:
  "balance_mount decodes_example (Some ''11111111111111111111111111111111'') =
     \<lparr>bstate = \<lparr>balance = None, balanceLamports = None, balance_isLoading = True,
                 balance_error = None\<rparr>,
      address = Some ''11111111111111111111111111111111'', connection = True, interval = True,
      reads = [''11111111111111111111111111111111'']\<rparr>"
  by (simp add: balance_mount_def fetchBalance_dispatch_def decodes_example_def absent_def)

lemma render_example:
  "balance_step decodes_example
     \<lparr>bstate = \<lparr>balance = None, balanceLamports = None, balance_isLoading = True,
                 balance_error = None\<rparr>,
      address = Some ''11111111111111111111111111111111'', connection = True, interval = True,
      reads = [''11111111111111111111111111111111'']\<rparr>
     (Render (Some ''So11111111111111111111111111111111111111112'')) =
   Some \<lparr>bstate = \<lparr>balance = None, balanceLamports = None, balance_isLoading = True,
                 balance_error = None\<rparr>,
      address = Some ''So11111111111111111111111111111111111111112'', connection = True,
      interval = True,
      reads = [''11111111111111111111111111111111'',
               ''So11111111111111111111111111111111111111112'']\<rparr>"
  by (simp add: balance_step_def fetchBalance_dispatch_def decodes_example_def absent_def)

text \<open>
  Claim C2 as stated fails. The hook is mounted with a first address and dispatches a
  read; it is rendered with a second address and dispatches another; the second read
  resolves with 200, and then the first with 100. At the end the hook has the second
  address and the balance of the first.
\<close>

theorem stale_balance_counterexample:
  "balance_run decodes_example
     (balance_mount decodes_example (Some ''11111111111111111111111111111111''))
     [Render (Some ''So11111111111111111111111111111111111111112''),
      Complete 1 (ReadResolves (Fin 200))] =
   Some \<lparr>bstate = \<lparr>balance = Some (js_divide (Fin 200) LAMPORTS_PER_SOL),
                   balanceLamports = Some (Fin 200), balance_isLoading = False,
                   balance_error = None\<rparr>,
      address = Some ''So11111111111111111111111111111111111111112'', connection = True,
      interval = True, reads = [''11111111111111111111111111111111'']\<rparr> \<and>
   balance_run decodes_example
     (balance_mount decodes_example (Some ''11111111111111111111111111111111''))
     [Render (Some ''So11111111111111111111111111111111111111112''),
      Complete 1 (ReadResolves (Fin 200)),
      Complete 0 (ReadResolves (Fin 100))] =
   Some \<lparr>bstate = \<lparr>balance = Some (js_divide (Fin 100) LAMPORTS_PER_SOL),
                   balanceLamports = Some (Fin 100), balance_isLoading = False,
                   balance_error = None\<rparr>,
      address = Some ''So11111111111111111111111111111111111111112'', connection = True,
      interval = True, reads = []\<rparr>"
  by (simp add: mount_example render_example)
    (simp add: balance_step_def fetchBalance_complete_def)

section \<open>Properties of the numbers\<close>

lemma pow2_powi: "pow2 e = 2 powi e"
  by (simp add: pow2_def power_int_def field_simps)

lemma pow2_pos: "0 < pow2 e"
  by (simp add: pow2_powi)

lemma pow2_add: "pow2 (a + b) = pow2 a * pow2 b"
  by (simp add: pow2_powi power_int_add)

lemma pow2_mono: "a \<le> b \<Longrightarrow> pow2 a \<le> pow2 b"
  by (simp add: pow2_powi power_int_increasing)

lemma pow2_of_nat: "pow2 (int n) = 2 ^ n"
  by (simp add: pow2_def)

lemma bitlength_bounds:
  "0 < n \<Longrightarrow> 2 ^ (bitlength n - 1) \<le> n \<and> n < 2 ^ bitlength n"
proof (induction n rule: bitlength.induct)
  case (1 n)
  show ?case
  proof (cases "n div 2 = 0")
    case True
    with "1.prems" have "n = 1" by (simp add: div_eq_0_iff) 
    then show ?thesis by simp
  next
    case False
    then have h: "0 < n div 2" by simp
    with "1.IH" "1.prems" have ih: "2 ^ (bitlength (n div 2) - 1) \<le> n div 2" "n div 2 < 2 ^ bitlength (n div 2)"
      by auto
    have bl: "bitlength n = Suc (bitlength (n div 2))" using "1.prems" by simp
    have pos: "0 < bitlength (n div 2)" using h by simp
    have "(2::nat) ^ (bitlength n - 1) = 2 * 2 ^ (bitlength (n div 2) - 1)"
      using bl pos by (cases "bitlength (n div 2)") simp_all
    also have "\<dots> \<le> 2 * (n div 2)" using ih(1) by simp
    also have "\<dots> \<le> n" by simp
    finally have lo: "2 ^ (bitlength n - 1) \<le> n" .
    have "n < 2 * (n div 2) + 2" by presburger
    also have "\<dots> \<le> 2 * 2 ^ bitlength (n div 2)" using ih(2) by simp
    also have "\<dots> = 2 ^ bitlength n" using bl by simp
    finally show ?thesis using lo by simp
  qed
qed


lemma pow2_diff: "pow2 (a - b) = pow2 a / pow2 b"
  by (simp add: pow2_powi power_int_diff)

lemma pow2_strict_mono: "a < b \<Longrightarrow> pow2 a < pow2 b"
  by (simp add: pow2_powi power_int_strict_increasing)

lemma floor_log2_bounds:
  assumes "0 < x"
  shows "pow2 (floor_log2 x) \<le> x \<and> x < pow2 (floor_log2 x + 1)"
proof -
  obtain a b where q: "quotient_of x = (a, b)" by (cases "quotient_of x")
  have b: "0 < b" using q by (rule quotient_of_denom_pos)
  have x: "x = of_int a / of_int b" using q by (rule quotient_of_div)
  have a: "0 < a" using assms b x by (simp add: zero_less_divide_iff)
  define la lb where "la = bitlength (nat a)" and "lb = bitlength (nat b)"
  have la: "2 ^ (la - 1) \<le> nat a" "nat a < 2 ^ la"
    using bitlength_bounds [of "nat a"] a by (simp_all add: la_def)
  have lb: "2 ^ (lb - 1) \<le> nat b" "nat b < 2 ^ lb"
    using bitlength_bounds [of "nat b"] b by (simp_all add: lb_def)
  have la1: "1 \<le> la" using a by (simp add: la_def)
  have lb1: "1 \<le> lb" using b by (simp add: lb_def)
  have ra: "pow2 (int la - 1) \<le> of_int a" "of_int a < pow2 (int la)"
  proof -
    have "(2::rat) ^ (la - 1) \<le> of_nat (nat a)"
      using la(1) of_nat_le_iff [where ?'a = rat, of "2 ^ (la - 1)" "nat a"] by simp
    moreover have "int (la - 1) = int la - 1" using la1 by simp
    then have "pow2 (int la - 1) = 2 ^ (la - 1)"
      using pow2_of_nat [of "la - 1"] by (simp only:)
    moreover have "(of_nat (nat a) :: rat) = of_int a" using a by simp
    ultimately show "pow2 (int la - 1) \<le> of_int a"
      by (simp only:)
    have "(of_nat (nat a) :: rat) < 2 ^ la"
      using la(2) of_nat_less_iff [where ?'a = rat, of "nat a" "2 ^ la"] by simp
    moreover have "(of_nat (nat a) :: rat) = of_int a" using a by simp
    ultimately show "of_int a < pow2 (int la)"
      by (simp only: pow2_of_nat)
  qed
  have rb: "pow2 (int lb - 1) \<le> of_int b" "of_int b < pow2 (int lb)"
  proof -
    have "(2::rat) ^ (lb - 1) \<le> of_nat (nat b)"
      using lb(1) of_nat_le_iff [where ?'a = rat, of "2 ^ (lb - 1)" "nat b"] by simp
    moreover have "int (lb - 1) = int lb - 1" using lb1 by simp
    then have "pow2 (int lb - 1) = 2 ^ (lb - 1)"
      using pow2_of_nat [of "lb - 1"] by (simp only:)
    moreover have "(of_nat (nat b) :: rat) = of_int b" using b by simp
    ultimately show "pow2 (int lb - 1) \<le> of_int b"
      by (simp only:)
    have "(of_nat (nat b) :: rat) < 2 ^ lb"
      using lb(2) of_nat_less_iff [where ?'a = rat, of "nat b" "2 ^ lb"] by simp
    moreover have "(of_nat (nat b) :: rat) = of_int b" using b by simp
    ultimately show "of_int b < pow2 (int lb)"
      by (simp only: pow2_of_nat)
  qed
  define d where "d = int la - int lb"
  have bpos: "(0::rat) < of_int b" using b by simp
  have apos: "(0::rat) < of_int a" using a by simp
  have up: "x < pow2 (d + 1)"
  proof -
    have "x < pow2 (int la) / pow2 (int lb - 1)"
      unfolding x using ra(2) rb(1) bpos apos pow2_pos [of "int lb - 1"]
      by (intro frac_less) simp_all
    also have "\<dots> = pow2 (int la - (int lb - 1))"
      by (rule pow2_diff [symmetric])
    also have "int la - (int lb - 1) = d + 1"
      by (simp add: d_def)
    finally show ?thesis .
  qed
  have lo: "pow2 (d - 1) < x"
  proof -
    have "pow2 (int la - 1) / pow2 (int lb) < x"
      unfolding x using ra(1) rb(2) bpos pow2_pos [of "int la - 1"]
      by (intro frac_less2) simp_all
    moreover have "pow2 (int la - 1) / pow2 (int lb) = pow2 (int la - 1 - int lb)"
      by (rule pow2_diff [symmetric])
    moreover have "int la - 1 - int lb = d - 1"
      by (simp add: d_def)
    ultimately show ?thesis by simp
  qed
  have fl: "floor_log2 x = (if pow2 d \<le> x then d else d - 1)"
    by (simp add: floor_log2_def q la_def lb_def d_def Let_def)
  show ?thesis
  proof (cases "pow2 d \<le> x")
    case True
    then show ?thesis using fl up by simp
  next
    case False
    then show ?thesis using fl lo by simp
  qed
qed

lemma floor_log2_unique:
  assumes "0 < x" and "pow2 k \<le> x" and "x < pow2 (k + 1)"
  shows "floor_log2 x = k"
proof -
  let ?j = "floor_log2 x"
  have j: "pow2 ?j \<le> x" "x < pow2 (?j + 1)"
    using floor_log2_bounds [OF assms(1)] by simp_all
  have "\<not> ?j < k"
  proof
    assume "?j < k"
    then have "pow2 (?j + 1) \<le> pow2 k" by (intro pow2_mono) simp
    then show False using j(2) assms(2) by simp
  qed
  moreover have "\<not> k < ?j"
  proof
    assume "k < ?j"
    then have "pow2 (k + 1) \<le> pow2 ?j" by (intro pow2_mono) simp
    then show False using j(1) assms(3) by simp
  qed
  ultimately show ?thesis by simp
qed

lemma round_double_normal:
  assumes "0 < x" and "pow2 k \<le> x" and "x < pow2 (k + 1)" and "- 1022 \<le> k"
    and "y = of_int (round_half_even (x / pow2 (k - 52))) * pow2 (k - 52)"
    and "y < pow2 1024"
  shows "round_double x = Fin y"
proof -
  have "floor_log2 x = k" using assms(1-3) by (rule floor_log2_unique)
  moreover have "max (k - 52) (- 1074) = k - 52" using assms(4) by simp
  ultimately show ?thesis
    using assms(1,5,6) by (simp add: round_double_def Let_def)
qed

lemma floor_rat_numeral:
  "\<lfloor>(numeral a :: rat) / numeral b\<rfloor> = numeral a div numeral b"
  using floor_divide_of_int_eq [where ?'a = rat, of "numeral a" "numeral b"] by simp

lemma literal_0_1: "literal (1 / 10) = Fin (3602879701896397 / 36028797018963968)"
  by (rule round_double_normal [where k = "- 4"])
    (simp_all add: pow2_def round_half_even_def Let_def floor_rat_numeral)

lemma times_0_1: "js_times (Fin (3602879701896397 / 36028797018963968)) 1000000000 = Fin 100000000"
  unfolding js_times.simps
  by (rule round_double_normal [where k = 26])
    (simp_all add: pow2_def round_half_even_def Let_def floor_rat_numeral)

lemma literal_1_5em9: "literal (15 / 10000000000) = Fin (7253554917687775 / 4835703278458516698824704)"
  by (rule round_double_normal [where k = "- 30"])
    (simp_all add: pow2_def round_half_even_def Let_def floor_rat_numeral)

lemma times_1_5em9: "js_times (Fin (7253554917687775 / 4835703278458516698824704)) 1000000000 = Fin (3 / 2)"
  unfolding js_times.simps
  by (rule round_double_normal [where k = 0])
    (simp_all add: pow2_def round_half_even_def Let_def floor_rat_numeral)

lemma literal_0_0001: "literal (1 / 10000) = Fin (7378697629483821 / 73786976294838206464)"
  by (rule round_double_normal [where k = "- 14"])
    (simp_all add: pow2_def round_half_even_def Let_def floor_rat_numeral)

lemma literal_0_00001: "literal (1 / 100000) = Fin (5902958103587057 / 590295810358705651712)"
  by (rule round_double_normal [where k = "- 17"])
    (simp_all add: pow2_def round_half_even_def Let_def floor_rat_numeral)

lemma literal_1_23: "literal (123 / 100) = Fin (2769713770832855 / 2251799813685248)"
  by (rule round_double_normal [where k = 0])
    (simp_all add: pow2_def round_half_even_def Let_def floor_rat_numeral)

section \<open>Properties of the conversion to lamports\<close>

lemma floor_0_1:
  "Math_floor (js_times (literal (1 / 10)) LAMPORTS_PER_SOL) = Fin 100000000"
  unfolding LAMPORTS_PER_SOL_def literal_0_1 times_0_1 by simp

lemma floor_1_5em9:
  "Math_floor (js_times (literal (15 / 10000000000)) LAMPORTS_PER_SOL) = Fin 1"
  unfolding LAMPORTS_PER_SOL_def literal_1_5em9 times_1_5em9
  by (simp add: floor_rat_numeral)

text \<open>
  Claim C4. The instruction that \<^verbatim>\<open>transfer\<close> hands to the store carries as lamports
  the floor of the product of the amount and \<open>LAMPORTS_PER_SOL\<close>, the product being
  the double the multiplication yields. When that product is finite the lamports are the
  integer \<open>n\<close> with \<open>n \<le> product < n + 1\<close>: the conversion never rounds up. On the
  literals 0.1 and 0.0000000015 the lamports are 100000000 and 1.
\<close>

theorem transfer_lamports_floor:
  "(isValidSolanaAddress decodes recipient \<longrightarrow> \<not> js_less_eq amount (Fin 0) \<longrightarrow>
      sent_of (fst (transfer decodes (Some pubkey) recipient amount (SendResolves sig))) =
        [\<lparr>fromPubkey = pubkey, toPubkey = recipient,
          lamports = Math_floor (js_times amount LAMPORTS_PER_SOL)\<rparr>]) \<and>
   (\<forall>p. js_times amount LAMPORTS_PER_SOL = Fin p \<longrightarrow>
      (\<exists>n. toLamports amount = Fin (of_int n) \<and> of_int n \<le> p \<and> p < of_int n + 1)) \<and>
   toLamports (literal (1 / 10)) = Fin 100000000 \<and>
   toLamports (literal (15 / 10000000000)) = Fin 1"
proof (intro conjI allI impI)
  show "sent_of (fst (transfer decodes (Some pubkey) recipient amount (SendResolves sig))) =
        [\<lparr>fromPubkey = pubkey, toPubkey = recipient,
          lamports = Math_floor (js_times amount LAMPORTS_PER_SOL)\<rparr>]"
    if "isValidSolanaAddress decodes recipient" "\<not> js_less_eq amount (Fin 0)"
    using that
    by (simp add: transfer_def transfer_begin_def transfer_settle_def failed_with_def toLamports_def)
  show "\<exists>n. toLamports amount = Fin (of_int n) \<and> of_int n \<le> p \<and> p < of_int n + 1"
    if "js_times amount LAMPORTS_PER_SOL = Fin p" for p
  proof (intro exI conjI)
    show "toLamports amount = Fin (of_int \<lfloor>p\<rfloor>)" using that by (simp add: toLamports_def)
    show "of_int \<lfloor>p\<rfloor> \<le> p" by (rule of_int_floor_le)
    show "p < of_int \<lfloor>p\<rfloor> + 1" by linarith
  qed
  show "toLamports (literal (1 / 10)) = Fin 100000000"
    by (simp only: toLamports_def floor_0_1)
  show "toLamports (literal (15 / 10000000000)) = Fin 1"
    by (simp only: toLamports_def floor_1_5em9)
qed

theorem transfer_lamports_floor_witness:
  "isValidSolanaAddress decodes_example ''11111111111111111111111111111111'' \<and>
   \<not> js_less_eq (literal (1 / 10)) (Fin 0) \<and>
   sent_of (fst (transfer decodes_example (Some ''W'') ''11111111111111111111111111111111''
      (literal (1 / 10)) (SendResolves ''sig123''))) =
     [\<lparr>fromPubkey = ''W'', toPubkey = ''11111111111111111111111111111111'',
       lamports = Fin 100000000\<rparr>]"
proof -
  have a: "isValidSolanaAddress decodes_example ''11111111111111111111111111111111''"
    by (simp add: isValidSolanaAddress_def decodes_example_def)
  have b: "\<not> js_less_eq (literal (1 / 10)) (Fin 0)"
    by (simp add: literal_0_1 js_less_eq_def)
  from transfer_lamports_floor [of decodes_example "''11111111111111111111111111111111''"
      "literal (1 / 10)" "''W''" "''sig123''"] a b
  have "sent_of (fst (transfer decodes_example (Some ''W'') ''11111111111111111111111111111111''
      (literal (1 / 10)) (SendResolves ''sig123''))) =
     [\<lparr>fromPubkey = ''W'', toPubkey = ''11111111111111111111111111111111'',
       lamports = Math_floor (js_times (literal (1 / 10)) LAMPORTS_PER_SOL)\<rparr>]"
    by blast
  then show ?thesis using a b by (simp only: floor_0_1 simp_thms)
qed

section \<open>Properties of the balance display\<close>

lemma digit_char_not_dot: "d < 10 \<Longrightarrow> digit_char d \<noteq> CHR ''.''"
proof -
  assume "d < 10"
  then have "d \<in> {0, 1, 2, 3, 4, 5, 6, 7, 8, 9}" by auto
  then show ?thesis by (auto simp: digit_char_def)
qed

lemma digits_no_dot: "CHR ''.'' \<notin> set (digits n)"
proof (induction n rule: digits.induct)
  case (1 n)
  show ?case
  proof (cases "n < 10")
    case True
    then have "digits n = [digit_char n]" by (subst digits.simps) simp
    then show ?thesis using digit_char_not_dot [of n] True by simp
  next
    case False
    have "digits n = digits (n div 10) @ [digit_char (n mod 10)]"
      using False by (subst digits.simps) simp
    moreover have "digit_char (n mod 10) \<noteq> CHR ''.''"
      by (rule digit_char_not_dot) simp
    ultimately show ?thesis using "1.IH" False by auto
  qed
qed

lemma digits_nonempty: "digits n \<noteq> []"
  by (subst digits.simps) simp

lemma replace_tail_digits:
  "CHR ''.'' \<notin> set s \<Longrightarrow> replace_tail s = rev (dropWhile (\<lambda>c. c = CHR ''0'') (rev s))"
proof (induction s)
  case Nil
  then show ?case by simp
next
  case (Cons c cs)
  then have ih: "replace_tail cs = rev (dropWhile (\<lambda>c. c = CHR ''0'') (rev cs))"
    and c: "c \<noteq> CHR ''.''"
    by auto
  show ?case
  proof (cases "list_all (\<lambda>c. c = CHR ''0'') (c # cs)")
    case True
    then have "dropWhile (\<lambda>c. c = CHR ''0'') (rev (c # cs)) = []"
      by (auto simp: list_all_iff)
    with True show ?thesis by (simp add: zeros_def)
  next
    case False
    then have nz: "\<not> tail_match (c # cs)" using c by (simp add: zeros_def)
    show ?thesis
    proof (cases "list_all (\<lambda>c. c = CHR ''0'') cs")
      case True
      with False have "c \<noteq> CHR ''0''" by simp
      moreover from True have "dropWhile (\<lambda>c. c = CHR ''0'') (rev cs) = []"
        by (auto simp: list_all_iff)
      ultimately show ?thesis using nz ih by (simp add: dropWhile_append)
    next
      case False
      then have "dropWhile (\<lambda>c. c = CHR ''0'') (rev cs) \<noteq> []"
        by (auto simp: list_all_iff)
      then have "dropWhile (\<lambda>c. c = CHR ''0'') (rev cs @ [c]) =
          dropWhile (\<lambda>c. c = CHR ''0'') (rev cs) @ [c]"
        by (auto simp: dropWhile_append)
      then show ?thesis using nz ih by simp
    qed
  qed
qed

lemma replace_tail_decimal:
  assumes "CHR ''.'' \<notin> set ip" and "CHR ''.'' \<notin> set fp" and "fp \<noteq> []"
  shows "replace_tail (ip @ ''.'' @ fp) = decimal ip fp"
  using assms(1)
proof (induction ip)
  case Nil
  show ?case
  proof (cases "list_all (\<lambda>c. c = CHR ''0'') fp")
    case True
    then have "dropWhile (\<lambda>c. c = CHR ''0'') (rev fp) = []"
      by (auto simp: list_all_iff)
    with True assms(3) show ?thesis by (simp add: decimal_def zeros_def)
  next
    case False
    then have "dropWhile (\<lambda>c. c = CHR ''0'') (rev fp) \<noteq> []"
      by (auto simp: list_all_iff)
    with False show ?thesis
      using replace_tail_digits [OF assms(2)] by (simp add: decimal_def zeros_def)
  qed
next
  case (Cons c ip)
  from Cons.prems have c: "c \<noteq> CHR ''.''" and ip: "CHR ''.'' \<notin> set ip" by auto
  have "\<not> zeros (c # ip @ ''.'' @ fp)"
    by (simp add: zeros_def)
  with c have "\<not> tail_match (c # ip @ ''.'' @ fp)" by simp
  then have "replace_tail ((c # ip) @ ''.'' @ fp) = c # replace_tail (ip @ ''.'' @ fp)"
    by simp
  also have "\<dots> = c # decimal ip fp" using Cons.IH [OF ip] by simp
  also have "\<dots> = decimal (c # ip) fp" by (simp add: decimal_def Let_def)
  finally show ?case .
qed

lemma toFixed_4_replace:
  assumes "0 \<le> x" and "x < 10 ^ 21"
  shows "map_option replace_tail (toFixed 4 (Fin x)) = Some (rounded4 x)"
proof -
  define n where "n = nat \<lfloor>x * 10000 + 1 / 2\<rfloor>"
  define m where "m = replicate (5 - length (digits n)) CHR ''0'' @ digits n"
  have len: "5 \<le> length m" by (simp add: m_def)
  have nodot: "CHR ''.'' \<notin> set m" using digits_no_dot [of n] by (auto simp: m_def)
  have ip: "CHR ''.'' \<notin> set (take (length m - 4) m)"
    using nodot by (auto dest: in_set_takeD)
  have fp: "CHR ''.'' \<notin> set (drop (length m - 4) m)"
    using nodot by (auto dest: in_set_dropD)
  have fpne: "drop (length m - 4) m \<noteq> []" using len by simp
  have "toFixed 4 (Fin x) = Some (take (length m - 4) m @ ''.'' @ drop (length m - 4) m)"
    using assms by (simp add: toFixed_def Let_def n_def m_def abs_if)
  moreover have "replace_tail (take (length m - 4) m @ ''.'' @ drop (length m - 4) m) =
      decimal (take (length m - 4) m) (drop (length m - 4) m)"
    using ip fp fpne by (rule replace_tail_decimal)
  ultimately show ?thesis
    by (simp add: rounded4_def fixed4_def Let_def n_def m_def)
qed

lemma digits_9844: "digits 9844 = ''9844''"
  by (simp add: digits.simps digit_char_def)

lemma digits_9843: "digits 9843 = ''9843''"
  by (simp add: digits.simps digit_char_def)

lemma digits_12300: "digits 12300 = ''12300''"
  by (simp add: digits.simps digit_char_def)

lemma rounded4_63_64: "rounded4 (63 / 64) = ''0.9844''"
  by (simp add: rounded4_def fixed4_def floor_rat_numeral digits_9844 decimal_def)

lemma truncated4_63_64: "truncated4 (63 / 64) = ''0.9843''"
  by (simp add: truncated4_def fixed4_def floor_rat_numeral digits_9843 decimal_def)

lemma rounded4_1_23: "rounded4 (2769713770832855 / 2251799813685248) = ''1.23''"
  by (simp add: rounded4_def fixed4_def floor_rat_numeral digits_12300 decimal_def)

lemma formatBalance_small:
  "x \<noteq> 0 \<Longrightarrow> x < 1 / 10000 \<Longrightarrow> formatBalance (Fin x) = Some ''< 0.0001''"
  by (simp add: formatBalance_def js_strict_eq_def literal_0_0001)

lemma formatBalance_large:
  assumes "\<not> js_less (Fin x) (literal (1 / 10000))" and "x < 10 ^ 21"
  shows "formatBalance (Fin x) = Some (rounded4 x)"
proof -
  from assms(1) have x: "7378697629483821 / 73786976294838206464 \<le> x"
    by (simp add: literal_0_0001)
  then have "0 < x" by simp
  then have "map_option replace_tail (toFixed 4 (Fin x)) = Some (rounded4 x)"
    using assms(2) by (intro toFixed_4_replace) simp_all
  then show ?thesis
    using assms(1) \<open>0 < x\<close> by (simp add: formatBalance_def js_strict_eq_def)
qed

text \<open>
  Claim C9, amended. \<^verbatim>\<open>formatBalance\<close> returns "0" for zero and "< 0.0001" for every
  other value below 0.0001. For a finite value from the double 0.0001 on and below
  \<open>10 ^ 21\<close> it returns the value rounded to the nearest multiple of 0.0001, a tie
  going up, written with up to four decimals, trailing zeros and a point left alone at
  the end removed. On the literals 0.00001 and 1.23 the results are "< 0.0001" and "1.23".
  The balance the hook stores is the lamports read divided by \<open>LAMPORTS_PER_SOL\<close>.
\<close>

theorem formatBalance_rounds:
  "formatBalance (Fin 0) = Some ''0'' \<and>
   (\<forall>x. x \<noteq> 0 \<longrightarrow> x < 1 / 10000 \<longrightarrow> formatBalance (Fin x) = Some ''< 0.0001'') \<and>
   (\<forall>x. \<not> js_less (Fin x) (literal (1 / 10000)) \<longrightarrow> x < 10 ^ 21 \<longrightarrow>
      formatBalance (Fin x) = Some (rounded4 x)) \<and>
   formatBalance (literal (1 / 100000)) = Some ''< 0.0001'' \<and>
   formatBalance (literal (123 / 100)) = Some ''1.23'' \<and>
   (\<forall>l s. balance (fetchBalance_complete (ReadResolves l) s) =
      Some (js_divide l LAMPORTS_PER_SOL)) \<and>
   LAMPORTS_PER_SOL = 10 ^ 9"
proof (intro conjI allI impI)
  show "balance (fetchBalance_complete (ReadResolves l) s) = Some (js_divide l LAMPORTS_PER_SOL)"
    for l s
    by (simp add: fetchBalance_complete_def)
  show "LAMPORTS_PER_SOL = 10 ^ 9" by (simp add: LAMPORTS_PER_SOL_def)
  show "formatBalance (Fin 0) = Some ''0''"
    by (simp add: formatBalance_def js_strict_eq_def)
  show "formatBalance (Fin x) = Some ''< 0.0001''" if "x \<noteq> 0" "x < 1 / 10000" for x
    using that by (rule formatBalance_small)
  show "formatBalance (Fin x) = Some (rounded4 x)"
    if "\<not> js_less (Fin x) (literal (1 / 10000))" "x < 10 ^ 21" for x
    using that by (rule formatBalance_large)
  show "formatBalance (literal (1 / 100000)) = Some ''< 0.0001''"
    unfolding literal_0_00001 by (rule formatBalance_small) simp_all
  have "formatBalance (Fin (2769713770832855 / 2251799813685248)) =
      Some (rounded4 (2769713770832855 / 2251799813685248))"
    by (rule formatBalance_large) (simp_all add: literal_0_0001)
  then show "formatBalance (literal (123 / 100)) = Some ''1.23''"
    by (simp add: literal_1_23 rounded4_1_23)
qed

lemma literal_63_64: "literal (63 / 64) = Fin (63 / 64)"
  by (rule round_double_normal [where k = "- 1"])
    (simp_all add: pow2_def round_half_even_def Let_def floor_rat_numeral)

theorem formatBalance_rounds_witness:
  "formatBalance (Fin (1 / 20000)) = Some ''< 0.0001'' \<and>
   formatBalance (Fin (63 / 64)) = Some ''0.9844''"
  using formatBalance_rounds
  by (simp add: literal_0_0001 rounded4_63_64)

text \<open>
  Claim C9 as stated fails where rounding and cutting differ: on the double 0.984375 the
  result is "0.9844", and the value cut to four decimals is "0.9843".
\<close>

theorem formatBalance_counterexample:
  "literal (63 / 64) = Fin (63 / 64) \<and>
   formatBalance (Fin (63 / 64)) = Some ''0.9844'' \<and>
   truncated4 (63 / 64) = ''0.9843'' \<and>
   formatBalance (Fin (63 / 64)) \<noteq> Some (truncated4 (63 / 64))"
proof -
  have "formatBalance (Fin (63 / 64)) = Some (rounded4 (63 / 64))"
    by (rule formatBalance_large) (simp_all add: literal_0_0001)
  then show ?thesis
    by (simp add: literal_63_64 rounded4_63_64 truncated4_63_64)
qed

end
